theory Spec2Isabelle
  imports
    Complex_Main
    "HOL-Library.Char_ord"
    "HOL-Library.List_Lexorder"
    "HOL-Library.AList"
begin

section \<open>The manifest\<close>

text \<open>
  The tool reads two esbuild metafiles. Of a metafile only \<open>outputs\<close> is used: an object
  from output path to \<open>{entryPoint?, bytes, cssBundle?}\<close>. The object is modelled by the
  list of its entries in the order \<open>Object.entries\<close> enumerates them, and a property read
  \<open>outputs[path]\<close> by \<open>map_of\<close>. No path and no entrypoint is the name of a property that
  every JavaScript object inherits (\<open>constructor\<close>, \<open>toString\<close> and the like), for which
  the reads of the source return that property.
  Sizes are byte counts of bundle files: naturals, far below \<open>2 ^ 50\<close>, where the doubles
  of the source hold every size, sum and difference exactly. Strings are compared
  character by character, as the default \<open>sort\<close> of the source compares code units.
\<close>

record output_entry =
  entryPoint :: "string option"
  bytes :: nat
  cssBundle :: "string option"

record metafile =
  outputs :: "(string \<times> output_entry) list"

text \<open>An entry \<open>{path, bytes}\<close> of the per-entrypoint lists.\<close>

type_synonym item = "string \<times> nat"

type_synonym sizes = "(string \<times> item list) list"

section \<open>computeSizeByEntrypoint\<close>

text \<open>
  An optional string is falsy in JavaScript when it is \<open>undefined\<close> or empty; the tests
  \<open>if (!entryPoint) return\<close> and \<open>if (cssBundle)\<close> are written out as both cases.
\<close>

text \<open>\<open>result[entryPoint] ?? []\<close>: the list stored under a key, or the empty list.\<close>

definition items_of :: "sizes \<Rightarrow> string \<Rightarrow> item list" where
  "items_of result ep = (case map_of result ep of None \<Rightarrow> [] | Some xs \<Rightarrow> xs)"

text \<open>
  The part of the loop body after \<open>result[entryPoint].push({ path, bytes })\<close>: the
  stylesheet bundle is pushed when the manifest has an output under its path and the
  list has no item of that path yet.
\<close>

definition push_css :: "(string \<times> output_entry) list \<Rightarrow> string option \<Rightarrow> item list \<Rightarrow> item list" where
  "push_css outs css xs =
     (case css of
        None \<Rightarrow> xs
      | Some c \<Rightarrow>
          if c = [] then xs
          else (case map_of outs c of
                  None \<Rightarrow> xs
                | Some cssOutput \<Rightarrow>
                    if find (\<lambda>it. fst it = c) xs \<noteq> None then xs
                    else xs @ [(c, bytes cssOutput)]))"

text \<open>The two pushes of one iteration, on the list of the entrypoint.\<close>

definition push_items :: "(string \<times> output_entry) list \<Rightarrow> string \<times> output_entry \<Rightarrow> item list \<Rightarrow> item list" where
  "push_items outs po xs = push_css outs (cssBundle (snd po)) (xs @ [(fst po, bytes (snd po))])"

text \<open>
  One iteration of \<open>Object.entries(metafile.outputs).forEach\<close>: nothing for a falsy
  \<open>entryPoint\<close>; else \<open>result[entryPoint] ||= []\<close> and the pushes.
\<close>

definition add_output :: "(string \<times> output_entry) list \<Rightarrow> string \<times> output_entry \<Rightarrow> sizes \<Rightarrow> sizes" where
  "add_output outs po result =
     (case entryPoint (snd po) of
        None \<Rightarrow> result
      | Some ep \<Rightarrow>
          if ep = [] then result
          else AList.update ep (push_items outs po (items_of result ep)) result)"

definition computeSizeByEntrypoint :: "metafile \<Rightarrow> sizes" where
  "computeSizeByEntrypoint m = fold (add_output (outputs m)) (outputs m) []"

section \<open>Numbers of the percentage\<close>

text \<open>
  \<open>percentChange\<close> is a double. A double is not-a-number, an infinity, or a rational
  with a 53 bit significand; \<open>to_double\<close> rounds a rational to the nearest such value,
  ties to the even significand, as each arithmetic operation of the source does. The
  exponent range is left out: quotients of sizes below \<open>2 ^ 53\<close> are far from it.
\<close>

datatype number = NaN | PosInfinity | NegInfinity | Finite rat

fun bitlen :: "nat \<Rightarrow> nat" where
  "bitlen n = (if n = 0 then 0 else Suc (bitlen (n div 2)))"

declare bitlen.simps [simp del]

text \<open>The binary exponent of a positive rational: \<open>2 ^ e \<le> x < 2 ^ (e + 1)\<close>.\<close>

definition ilog2 :: "rat \<Rightarrow> int" where
  "ilog2 x = (if 1 \<le> x then int (bitlen (nat \<lfloor>x\<rfloor>)) - 1
              else - int (bitlen (nat (\<lceil>1 / x\<rceil> - 1))))"

definition round_even :: "rat \<Rightarrow> int" where
  "round_even x =
     (let f = \<lfloor>x\<rfloor>; d = x - of_int f
      in if d < 1 / 2 then f else if 1 / 2 < d then f + 1
         else if even f then f else f + 1)"

definition to_double :: "rat \<Rightarrow> rat" where
  "to_double x =
     (if x = 0 then 0
      else let e = ilog2 \<bar>x\<bar>
           in if 52 \<le> e
              then of_int (round_even (x / 2 ^ nat (e - 52))) * 2 ^ nat (e - 52)
              else of_int (round_even (x * 2 ^ nat (52 - e))) / 2 ^ nat (52 - e))"

text \<open>\<open>a / b\<close> on two integers held exactly; the divisor zero is the positive zero.\<close>

definition js_divide :: "int \<Rightarrow> int \<Rightarrow> number" where
  "js_divide a b =
     (if b = 0 then (if a = 0 then NaN else if 0 < a then PosInfinity else NegInfinity)
      else Finite (to_double (of_int a / of_int b)))"

definition js_times :: "number \<Rightarrow> rat \<Rightarrow> number" where
  "js_times x k =
     (case x of
        NaN \<Rightarrow> NaN
      | PosInfinity \<Rightarrow> (if 0 < k then PosInfinity else if k < 0 then NegInfinity else NaN)
      | NegInfinity \<Rightarrow> (if 0 < k then NegInfinity else if k < 0 then PosInfinity else NaN)
      | Finite v \<Rightarrow> Finite (to_double (v * k)))"

text \<open>\<open>((prSizeTotal - baseSizeTotal) / baseSizeTotal) * 100\<close>\<close>

definition percentChange :: "nat \<Rightarrow> nat \<Rightarrow> number" where
  "percentChange prSizeTotal baseSizeTotal =
     js_times (js_divide (int prSizeTotal - int baseSizeTotal) (int baseSizeTotal)) 100"

text \<open>Decimal digits of a natural number.\<close>

definition digit :: "nat \<Rightarrow> char" where
  "digit d = ''0123456789'' ! (d mod 10)"

fun decimal :: "nat \<Rightarrow> string" where
  "decimal n = (if n < 10 then [digit n] else decimal (n div 10) @ [digit n])"

declare decimal.simps [simp del]

text \<open>
  \<open>Number.prototype.toFixed(2)\<close>: the integer \<open>n\<close> with \<open>n / 100\<close> nearest to the exact
  value, the larger one of two, printed with two decimals; the sign in front. Values
  from \<open>10 ^ 21\<close> on, printed in exponent form by the platform, do not arise from sizes
  in range.
\<close>

definition toFixed2 :: "number \<Rightarrow> string" where
  "toFixed2 x =
     (case x of
        NaN \<Rightarrow> ''NaN''
      | PosInfinity \<Rightarrow> ''Infinity''
      | NegInfinity \<Rightarrow> ''-Infinity''
      | Finite v \<Rightarrow>
          (let n = nat \<lfloor>\<bar>v\<bar> * 100 + 1 / 2\<rfloor>
           in (if v < 0 then ''-'' else []) @ decimal (n div 100) @ ''.''
              @ [digit (n div 10), digit n]))"

section \<open>diff\<close>

definition escapePipes :: "string \<Rightarrow> string" where
  "escapePipes str = concat (map (\<lambda>c. if c = CHR ''|'' then [CHR 0x5C, CHR ''|''] else [c]) str)"

text \<open>\<open>Array.prototype.join\<close>\<close>

fun join :: "string \<Rightarrow> string list \<Rightarrow> string" where
  "join sep [] = []"
| "join sep [x] = x"
| "join sep (x # y # ys) = x @ sep @ join sep (y # ys)"

text \<open>\<open>[...new Set(xs)]\<close>: the elements of \<open>xs\<close>, each at its first occurrence.\<close>

definition uniq :: "'a list \<Rightarrow> 'a list" where
  "uniq xs = rev (remdups (rev xs))"

text \<open>\<open>xs.reduce((acc, { bytes }) => acc + bytes, 0)\<close>\<close>

definition sum_bytes :: "item list \<Rightarrow> nat" where
  "sum_bytes xs = foldl (\<lambda>acc it. acc + snd it) 0 xs"

definition columnHeadings :: "string list" where
  "columnHeadings = [''Entrypoint'', ''Path'', ''Old size'', ''New size'', ''Diff'']"

definition entrypoints :: "sizes \<Rightarrow> sizes \<Rightarrow> string list" where
  "entrypoints baseSizes prSizes = sort (uniq (map fst baseSizes @ map fst prSizes))"

definition paths :: "item list \<Rightarrow> item list \<Rightarrow> string list" where
  "paths baseSize prSize = sort (uniq (map fst baseSize @ map fst prSize))"

text \<open>
  \<open>bytesToSize\<close> picks a unit with \<open>Math.log\<close> and formats with \<open>Intl.NumberFormat\<close> of
  the platform, and returns a text for every size and every difference of sizes in
  range. The table is defined over any such function \<open>bts\<close> from numbers to texts, and
  the theorems hold for every \<open>bts\<close>.
\<close>

definition percent_cell :: "(int \<Rightarrow> string) \<Rightarrow> int \<Rightarrow> number \<Rightarrow> string" where
  "percent_cell bts diffSizeTotal pc = bts diffSizeTotal @ '' ('' @ toFixed2 pc @ ''%)''"

text \<open>The row pushed first for an entrypoint (source lines 128 to 134).\<close>

definition entry_row :: "(int \<Rightarrow> string) \<Rightarrow> item list \<Rightarrow> item list \<Rightarrow> string \<Rightarrow> string list" where
  "entry_row bts baseSize prSize entrypoint =
     (let baseSizeTotal = sum_bytes baseSize;
          prSizeTotal = sum_bytes prSize;
          diffSizeTotal = int prSizeTotal - int baseSizeTotal;
          pc = percentChange prSizeTotal baseSizeTotal
      in [entrypoint, ''*'', bts (int baseSizeTotal), bts (int prSizeTotal),
          percent_cell bts diffSizeTotal pc])"

text \<open>\<open>(str) => "<sub>" + str + "</sub>"\<close>\<close>

definition sub :: "string \<Rightarrow> string" where
  "sub str = ''<sub>'' @ str @ ''</sub>''"

text \<open>The row pushed for one path of an entrypoint (source lines 143 to 162).\<close>

definition path_row :: "(int \<Rightarrow> string) \<Rightarrow> item list \<Rightarrow> item list \<Rightarrow> string \<Rightarrow> string list" where
  "path_row bts baseSize prSize path =
     (let pc = percentChange (sum_bytes prSize) (sum_bytes baseSize);
          baseItem = find (\<lambda>it. fst it = path) baseSize;
          prItem = find (\<lambda>it. fst it = path) prSize;
          diffSizeTotal =
            (case baseItem of
               None \<Rightarrow> 0
             | Some b \<Rightarrow> (case prItem of None \<Rightarrow> 0 | Some p \<Rightarrow> int (snd p) - int (snd b)))
      in map sub
           [[], path,
            (case baseItem of None \<Rightarrow> ''n/a'' | Some b \<Rightarrow> bts (int (snd b))),
            (case prItem of None \<Rightarrow> ''n/a'' | Some p \<Rightarrow> bts (int (snd p))),
            (if baseItem = None then ''new''
             else if prItem = None then ''deleted''
             else percent_cell bts diffSizeTotal pc)])"

text \<open>The body of \<open>entrypoints.forEach\<close>: the rows of one entrypoint.\<close>

definition entry_rows :: "(int \<Rightarrow> string) \<Rightarrow> sizes \<Rightarrow> sizes \<Rightarrow> string \<Rightarrow> string list list" where
  "entry_rows bts baseSizes prSizes entrypoint =
     (let baseSize = items_of baseSizes entrypoint;
          prSize = items_of prSizes entrypoint
      in entry_row bts baseSize prSize entrypoint
         # map (path_row bts baseSize prSize) (paths baseSize prSize))"

text \<open>The array \<open>result\<close> of \<open>diff\<close> before it is rendered.\<close>

definition diff_table :: "(int \<Rightarrow> string) \<Rightarrow> metafile \<Rightarrow> metafile \<Rightarrow> string list list" where
  "diff_table bts baseMetafile prMetafile =
     (let baseSizes = computeSizeByEntrypoint baseMetafile;
          prSizes = computeSizeByEntrypoint prMetafile
      in columnHeadings # map (\<lambda>_. ''---'') columnHeadings
         # concat (map (entry_rows bts baseSizes prSizes) (entrypoints baseSizes prSizes)))"

definition render_row :: "string list \<Rightarrow> string" where
  "render_row row = ''| '' @ join '' | '' (map escapePipes row) @ '' |''"

definition diff :: "(int \<Rightarrow> string) \<Rightarrow> metafile \<Rightarrow> metafile \<Rightarrow> string" where
  "diff bts baseMetafile prMetafile =
     join [CHR 0x0A] (map render_row (diff_table bts baseMetafile prMetafile))"

section \<open>The comment on the pull request\<close>

text \<open>
  What the program reads from its host: the action inputs (\<open>core.getInput\<close> gives the
  empty string for an input that is not set), the environment variable, the file system
  and the JSON parser. \<open>readFileSync\<close> and \<open>JSON.parse\<close> either return or throw a value
  of the host, of type \<open>'e\<close>. The file system may change while the program runs:
  \<open>readFileSync h n p\<close> is what the call returns when \<open>n\<close> calls were made before it. A
  manifest that parses is taken to have the shape of a metafile, as the cast of the
  source does.
\<close>

record 'e host =
  getInput :: "string \<Rightarrow> string"
  GITHUB_TOKEN :: "string option"
  resolve :: "string \<Rightarrow> string"
  readFileSync :: "nat \<Rightarrow> string \<Rightarrow> 'e + string"
  JSON_parse :: "string \<Rightarrow> 'e + metafile"

text \<open>A thrown value: an \<open>Error\<close> of the program with its message, or a value of the host.\<close>

datatype 'e exn = Error string | Host 'e

definition and_then :: "'x + 'a \<Rightarrow> ('a \<Rightarrow> 'x + 'b) \<Rightarrow> 'x + 'b" where
  "and_then r f = (case r of Inl e \<Rightarrow> Inl e | Inr v \<Rightarrow> f v)"

text \<open>
  The comments of the pull request, as \<open>listComments\<close> returns them: an id and an
  optional body each, all on the page that the request returns. The service gives a
  created comment an id above all others. Requests to the service are taken to
  succeed.
\<close>

type_synonym comment = "nat \<times> string option"

definition updateComment :: "nat \<Rightarrow> string \<Rightarrow> comment list \<Rightarrow> comment list" where
  "updateComment comment_id body cs =
     map (\<lambda>c. if fst c = comment_id then (comment_id, Some body) else c) cs"

definition createComment :: "string \<Rightarrow> comment list \<Rightarrow> comment list" where
  "createComment body cs = cs @ [(Suc (fold max (map fst cs) 0), Some body)]"

definition token_not_found :: string where
  "token_not_found = ''GitHub token not found; looked in env.GITHUB_TOKEN and input.github_token''"

text \<open>The client is modelled by the token it is made from.\<close>

definition getClient :: "'e host \<Rightarrow> 'e exn + string" where
  "getClient h =
     (let githubToken =
            (if getInput h ''github_token'' \<noteq> [] then Some (getInput h ''github_token'')
             else GITHUB_TOKEN h)
      in case githubToken of
           None \<Rightarrow> Inl (Error token_not_found)
         | Some t \<Rightarrow> if t = [] then Inl (Error token_not_found) else Inr t)"

definition comment_identifier :: string where
  "comment_identifier = ''<!-- esbuild-bundle-size-diff-comment -->''"

definition startsWith :: "string \<Rightarrow> string \<Rightarrow> bool" where
  "startsWith s p = (take (length p) s = p)"

text \<open>\<open>comment.body?.startsWith(identifier)\<close>\<close>

definition marked :: "comment \<Rightarrow> bool" where
  "marked c = (case snd c of None \<Rightarrow> False | Some body \<Rightarrow> startsWith body comment_identifier)"

definition findComment :: "'e host \<Rightarrow> comment list \<Rightarrow> 'e exn + nat option" where
  "findComment h cs =
     and_then (getClient h) (\<lambda>client. Inr (map_option fst (find marked cs)))"

text \<open>\<open>if (commentId)\<close> is false for \<open>null\<close> and for the id zero.\<close>

definition comment :: "'e host \<Rightarrow> string \<Rightarrow> comment list \<Rightarrow> 'e exn + comment list" where
  "comment h message cs =
     and_then (getClient h) (\<lambda>client.
     and_then (findComment h cs) (\<lambda>commentId.
       case commentId of
         None \<Rightarrow> Inr (createComment message cs)
       | Some i \<Rightarrow>
           if i \<noteq> 0 then Inr (updateComment i message cs)
           else Inr (createComment message cs)))"

section \<open>run and main\<close>

text \<open>\<open>JSON.parse(fs.readFileSync(p, "utf8")) as Metafile\<close>, as the call number \<open>n\<close>.\<close>

definition read_metafile :: "'e host \<Rightarrow> nat \<Rightarrow> string \<Rightarrow> 'e exn + metafile" where
  "read_metafile h n p =
     (case readFileSync h n p of
        Inl e \<Rightarrow> Inl (Host e)
      | Inr content \<Rightarrow>
          (case JSON_parse h content of Inl e \<Rightarrow> Inl (Host e) | Inr m \<Rightarrow> Inr m))"

text \<open>The template literal of \<open>run\<close> around the table.\<close>

definition run_message :: "string \<Rightarrow> string" where
  "run_message resultMarkdownTable =
     [CHR 0x0A] @ ''  ## Bundle size diff'' @ [CHR 0x0A, CHR 0x0A] @ ''  ''
     @ resultMarkdownTable @ [CHR 0x0A] @ ''  ''"

text \<open>
  \<open>run\<close>, from the comments of the pull request to the comments after it, or to the
  value thrown. The source does not await \<open>comment\<close>; what \<open>comment\<close> does and throws
  is the outcome of the run all the same.
\<close>

definition run :: "'e host \<Rightarrow> (int \<Rightarrow> string) \<Rightarrow> comment list \<Rightarrow> 'e exn + comment list" where
  "run h bts cs =
     (let basePath = getInput h ''base_path'';
          prPath = getInput h ''pr_path'';
          base = resolve h basePath;
          pr = resolve h prPath
      in and_then (read_metafile h 0 base) (\<lambda>baseMetafile.
         and_then (read_metafile h 1 pr) (\<lambda>prMetafile.
           comment h (run_message (diff bts baseMetafile prMetafile)) cs)))"

text \<open>\<open>main\<close>, to the line it prints or to the value thrown.\<close>

definition main :: "'e host \<Rightarrow> (int \<Rightarrow> string) \<Rightarrow> string \<Rightarrow> string \<Rightarrow> 'e exn + string" where
  "main h bts base pr =
     and_then (read_metafile h 0 base) (\<lambda>baseMetafile.
     and_then (read_metafile h 1 pr) (\<lambda>prMetafile.
       Inr (diff bts baseMetafile prMetafile)))"

text \<open>What the program delivers: a table on standard output, or the comments.\<close>

datatype delivered = Printed string | Posted "comment list"

text \<open>The dispatch at the end of the file, on \<open>process.argv\<close>.\<close>

definition program ::
  "'e host \<Rightarrow> (int \<Rightarrow> string) \<Rightarrow> string list \<Rightarrow> comment list \<Rightarrow> 'e exn + delivered" where
  "program h bts argv cs =
     (if 4 \<le> length argv
      then and_then (main h bts (argv ! 2) (argv ! 3)) (\<lambda>t. Inr (Printed t))
      else and_then (run h bts cs) (\<lambda>cs'. Inr (Posted cs')))"

section \<open>The aggregation in the words of the specification\<close>

text \<open>An output names the entrypoint \<open>e\<close> when its \<open>entryPoint\<close> is the non-empty string \<open>e\<close>.\<close>

definition names :: "string \<Rightarrow> string \<times> output_entry \<Rightarrow> bool" where
  "names e po = (e \<noteq> [] \<and> entryPoint (snd po) = Some e)"

text \<open>The value of an optional string that is truthy, as a list of at most one element.\<close>

definition truthy :: "string option \<Rightarrow> string list" where
  "truthy s = (case s of None \<Rightarrow> [] | Some v \<Rightarrow> if v = [] then [] else [v])"


text \<open>
  The stylesheet bundles that the outputs \<open>ys\<close> reference and that are outputs of the
  manifest, and those referenced by the outputs that name \<open>e\<close>.
\<close>

definition css_of :: "(string \<times> output_entry) list \<Rightarrow> (string \<times> output_entry) list \<Rightarrow> string list" where
  "css_of outs ys =
     filter (\<lambda>c. map_of outs c \<noteq> None) (concat (map (\<lambda>po. truthy (cssBundle (snd po))) ys))"

definition css_refs :: "(string \<times> output_entry) list \<Rightarrow> string \<Rightarrow> string list" where
  "css_refs outs e = css_of outs (filter (names e) outs)"

definition bytes_at :: "(string \<times> output_entry) list \<Rightarrow> string \<Rightarrow> nat" where
  "bytes_at outs c = (case map_of outs c of None \<Rightarrow> 0 | Some cssOutput \<Rightarrow> bytes cssOutput)"



section \<open>The table in the words of the specification\<close>






section \<open>Manifests used as examples\<close>

definition out :: "string option \<Rightarrow> nat \<Rightarrow> string option \<Rightarrow> output_entry" where
  "out e b c = \<lparr>entryPoint = e, bytes = b, cssBundle = c\<rparr>"

text \<open>A script of 100 bytes with a stylesheet of 100 bytes; the script grows to 200.\<close>

definition ex_base :: metafile where
  "ex_base = \<lparr>outputs =
     [(''a.js'', out (Some ''e'') 100 (Some ''a.css'')), (''a.css'', out None 100 None)]\<rparr>"

definition ex_pr :: metafile where
  "ex_pr = \<lparr>outputs =
     [(''a.js'', out (Some ''e'') 200 (Some ''a.css'')), (''a.css'', out None 100 None)]\<rparr>"










section \<open>Hosts used as examples\<close>

text \<open>
  A host whose working directory is \<open>/w\<close>, with the inputs \<open>base_path\<close> and \<open>pr_path\<close> set
  and the token input \<open>tok\<close>; its file system is \<open>fs\<close>, and it parses the content \<open>B\<close> to
  \<open>ex_base\<close>, the content \<open>P\<close> to \<open>ex_pr\<close> and nothing else.
\<close>

definition ex_host :: "string \<Rightarrow> (nat \<Rightarrow> string \<Rightarrow> string + string) \<Rightarrow> string host" where
  "ex_host tok fs =
     \<lparr>getInput = (\<lambda>k. if k = ''base_path'' then ''base.json''
                       else if k = ''pr_path'' then ''pr.json''
                       else if k = ''github_token'' then tok else []),
      GITHUB_TOKEN = None,
      resolve = (\<lambda>p. ''/w/'' @ p),
      readFileSync = fs,
      JSON_parse = (\<lambda>s. if s = ''B'' then Inr ex_base
                          else if s = ''P'' then Inr ex_pr
                          else Inl ''SyntaxError'')\<rparr>"

text \<open>
  Both manifests are there; the old one is missing; the new one is not JSON; the old
  one is not JSON; the new one is missing.
\<close>

definition fs_ok :: "nat \<Rightarrow> string \<Rightarrow> string + string" where
  "fs_ok n p = (if p = ''/w/base.json'' then Inr ''B''
                else if p = ''/w/pr.json'' then Inr ''P'' else Inl ''ENOENT'')"


definition fs_bad_pr :: "nat \<Rightarrow> string \<Rightarrow> string + string" where
  "fs_bad_pr n p = (if p = ''/w/base.json'' then Inr ''B''
                    else if p = ''/w/pr.json'' then Inr ''{'' else Inl ''ENOENT'')"

definition fs_bad_base :: "nat \<Rightarrow> string \<Rightarrow> string + string" where
  "fs_bad_base n p = (if p = ''/w/base.json'' then Inr ''{''
                      else if p = ''/w/pr.json'' then Inr ''P'' else Inl ''ENOENT'')"

definition fs_no_pr :: "nat \<Rightarrow> string \<Rightarrow> string + string" where
  "fs_no_pr n p = (if p = ''/w/base.json'' then Inr ''B'' else Inl ''ENOENT'')"

text \<open>The old manifest is missing at the first call only: a second attempt would read it.\<close>

definition fs_late :: "nat \<Rightarrow> string \<Rightarrow> string + string" where
  "fs_late n p = (if n = 0 then Inl ''ENOENT'' else fs_ok n p)"

text \<open>A pull request with a comment of somebody else and a comment that has the marker.\<close>

definition ex_comments :: "comment list" where
  "ex_comments = [(7, Some ''LGTM''), (9, Some (comment_identifier @ ''old table''))]"

section \<open>Properties of the aggregation\<close>

lemmas agg_defs = computeSizeByEntrypoint_def add_output_def push_items_def push_css_def
  items_of_def out_def sum_bytes_def names_def css_refs_def css_of_def truthy_def bytes_at_def







lemma find_path_iff [simp]: "(find (\<lambda>it. fst it = c) xs = None) = (c \<notin> fst ` set xs)"
  by (induction xs) auto














section \<open>The size of an entrypoint\<close>




section \<open>Stylesheet bundles\<close>








section \<open>Evaluating the numbers\<close>

lemma decimal_small: "n < 10 \<Longrightarrow> decimal n = [digit n]"
  by (simp add: decimal.simps)

lemma decimal_large: "10 \<le> n \<Longrightarrow> decimal n = decimal (n div 10) @ [digit n]"
  by (subst decimal.simps) simp

lemma bitlen_zero: "bitlen 0 = 0"
  by (simp add: bitlen.simps)

lemma bitlen_pos: "0 < n \<Longrightarrow> bitlen n = Suc (bitlen (n div 2))"
  by (subst bitlen.simps) simp

lemma floor_rat_numeral: "\<lfloor>(numeral a :: rat) / numeral b\<rfloor> = numeral a div numeral b"
  using floor_divide_of_int_eq [of "numeral a" "numeral b", where ?'a = rat] by simp

lemma floor_rat_neg_numeral: "\<lfloor>- ((numeral a :: rat) / numeral b)\<rfloor> = - numeral a div numeral b"
  using floor_divide_of_int_eq [of "- numeral a" "numeral b", where ?'a = rat] by simp

lemma ceiling_rat_numeral: "\<lceil>(numeral a :: rat) / numeral b\<rceil> = - (- numeral a div numeral b)"
  using floor_rat_neg_numeral [of a b] by (simp add: ceiling_def)

lemmas num_defs = percentChange_def js_divide_def js_times_def to_double_def ilog2_def
  round_even_def toFixed2_def bitlen_zero bitlen_pos decimal_small decimal_large digit_def Let_def
  floor_rat_numeral floor_rat_neg_numeral ceiling_rat_numeral

lemmas table_defs = diff_table_def entrypoints_def uniq_def entry_rows_def paths_def entry_row_def
  path_row_def columnHeadings_def percent_cell_def sub_def

text \<open>
  The model of the doubles on known values of JavaScript: \<open>(1 / 800) * 100\<close> is
  \<open>0.125\<close> and prints as \<open>0.13\<close>; \<open>0.07 * 100\<close> is \<open>7.000000000000001\<close>.
\<close>

lemma percentChange_examples:
  "toFixed2 (percentChange 801 800) = ''0.13''"
  "percentChange 107 100 = Finite (7881299347898369 / 1125899906842624)"
  "toFixed2 (percentChange 999 1000) = ''-0.10''"
  by (simp_all add: num_defs)



section \<open>Properties of the table\<close>
















section \<open>The layout of the table\<close>


section \<open>Entrypoints of one manifest only\<close>



section \<open>A manifest against itself\<close>




section \<open>The percentage of a row\<close>

text \<open>
  Claim C1 on the code: the row of an entrypoint prints the percentage of the two
  totals it shows. A path row prints the same percentage of the totals beside the
  difference of its own two sizes: between \<open>ex_base\<close> and \<open>ex_pr\<close> the totals go from 200
  to 300, and the row of \<open>a.css\<close>, 100 bytes in both, and the row of \<open>a.js\<close>, from 100
  to 200 bytes, print \<open>50.00%\<close> where their own sizes give \<open>0.00%\<close> and \<open>100.00%\<close>.
\<close>

theorem path_rows_print_the_percentage_of_the_totals:
  "entry_row bts x y e
     = [e, ''*'', bts (int (sum_bytes x)), bts (int (sum_bytes y)),
        bts (int (sum_bytes y) - int (sum_bytes x))
        @ '' ('' @ toFixed2 (percentChange (sum_bytes y) (sum_bytes x)) @ ''%)'']
   \<and> diff_table bts ex_base ex_pr =
     [[''Entrypoint'', ''Path'', ''Old size'', ''New size'', ''Diff''],
      [''---'', ''---'', ''---'', ''---'', ''---''],
      [''e'', ''*'', bts 200, bts 300, bts 100 @ '' (50.00%)''],
      [''<sub></sub>'', ''<sub>a.css</sub>'', ''<sub>'' @ bts 100 @ ''</sub>'',
       ''<sub>'' @ bts 100 @ ''</sub>'', ''<sub>'' @ bts 0 @ '' (50.00%)</sub>''],
      [''<sub></sub>'', ''<sub>a.js</sub>'', ''<sub>'' @ bts 100 @ ''</sub>'',
       ''<sub>'' @ bts 200 @ ''</sub>'', ''<sub>'' @ bts 100 @ '' (50.00%)</sub>'']]
   \<and> toFixed2 (percentChange 300 200) = ''50.00''
   \<and> toFixed2 (percentChange 100 100) = ''0.00''
   \<and> toFixed2 (percentChange 200 100) = ''100.00''"
proof (intro conjI)
  show "entry_row bts x y e
     = [e, ''*'', bts (int (sum_bytes x)), bts (int (sum_bytes y)),
        bts (int (sum_bytes y) - int (sum_bytes x))
        @ '' ('' @ toFixed2 (percentChange (sum_bytes y) (sum_bytes x)) @ ''%)'']"
    by (simp add: entry_row_def percent_cell_def Let_def)
  show "diff_table bts ex_base ex_pr =
     [[''Entrypoint'', ''Path'', ''Old size'', ''New size'', ''Diff''],
      [''---'', ''---'', ''---'', ''---'', ''---''],
      [''e'', ''*'', bts 200, bts 300, bts 100 @ '' (50.00%)''],
      [''<sub></sub>'', ''<sub>a.css</sub>'', ''<sub>'' @ bts 100 @ ''</sub>'',
       ''<sub>'' @ bts 100 @ ''</sub>'', ''<sub>'' @ bts 0 @ '' (50.00%)</sub>''],
      [''<sub></sub>'', ''<sub>a.js</sub>'', ''<sub>'' @ bts 100 @ ''</sub>'',
       ''<sub>'' @ bts 200 @ ''</sub>'', ''<sub>'' @ bts 100 @ '' (50.00%)</sub>'']]"
    by (simp add: ex_base_def ex_pr_def agg_defs table_defs num_defs)
  show "toFixed2 (percentChange 300 200) = ''50.00''" by (simp add: num_defs)
  show "toFixed2 (percentChange 100 100) = ''0.00''" by (simp add: num_defs)
  show "toFixed2 (percentChange 200 100) = ''100.00''" by (simp add: num_defs)
qed

section \<open>Failures of run and main\<close>

lemmas run_defs = run_def main_def program_def read_metafile_def and_then_def comment_def
  findComment_def getClient_def Let_def


lemma run_message_unmarked: "\<not> startsWith (run_message t) comment_identifier"
  by (simp add: startsWith_def run_message_def comment_identifier_def)

text \<open>
  Claim C7: when reading or parsing the old manifest fails, or the old manifest is
  read and parsed and reading or parsing the new one fails, the program ends with the
  value that \<open>readFileSync\<close> or \<open>JSON.parse\<close> threw, in both modes, and delivers
  nothing. The old manifest is read in the first call of \<open>readFileSync\<close> and the new one
  in the second; what a later call would return does not matter.
\<close>

theorem manifest_failure_propagates:
  "(let base = (if 4 \<le> length argv then argv ! 2 else resolve h (getInput h ''base_path''));
        pr = (if 4 \<le> length argv then argv ! 3 else resolve h (getInput h ''pr_path''))
    in (readFileSync h 0 base = Inl x
          \<longrightarrow> program h bts argv cs = Inl (Host x))
       \<and> (readFileSync h 0 base = Inr s \<and> JSON_parse h s = Inl x
          \<longrightarrow> program h bts argv cs = Inl (Host x))
       \<and> (read_metafile h 0 base = Inr baseMetafile \<and> readFileSync h 1 pr = Inl x
          \<longrightarrow> program h bts argv cs = Inl (Host x))
       \<and> (read_metafile h 0 base = Inr baseMetafile
            \<and> readFileSync h 1 pr = Inr s \<and> JSON_parse h s = Inl x
          \<longrightarrow> program h bts argv cs = Inl (Host x)))"
  by (auto simp: program_def main_def run_def read_metafile_def and_then_def Let_def
      split: sum.splits)

theorem manifest_failure_propagates_witness:
  "readFileSync (ex_host ''t'' fs_late) 0 ''/w/base.json'' = Inl ''ENOENT''
   \<and> readFileSync (ex_host ''t'' fs_late) 1 ''/w/base.json'' = Inr ''B''
   \<and> (\<forall>bts cs. program (ex_host ''t'' fs_late) bts [] cs = Inl (Host ''ENOENT''))
   \<and> (\<forall>bts cs. program (ex_host ''t'' fs_late) bts [''node'', ''x.ts'', ''/w/base.json'', ''/w/pr.json''] cs
        = Inl (Host ''ENOENT''))
   \<and> readFileSync (ex_host ''t'' fs_bad_base) 0 ''/w/base.json'' = Inr ''{''
   \<and> JSON_parse (ex_host ''t'' fs_bad_base) ''{'' = Inl ''SyntaxError''
   \<and> (\<forall>bts cs. program (ex_host ''t'' fs_bad_base) bts [] cs = Inl (Host ''SyntaxError''))
   \<and> read_metafile (ex_host ''t'' fs_no_pr) 0 ''/w/base.json'' = Inr ex_base
   \<and> readFileSync (ex_host ''t'' fs_no_pr) 1 ''/w/pr.json'' = Inl ''ENOENT''
   \<and> (\<forall>bts cs. program (ex_host ''t'' fs_no_pr) bts [] cs = Inl (Host ''ENOENT''))
   \<and> read_metafile (ex_host ''t'' fs_bad_pr) 0 ''/w/base.json'' = Inr ex_base
   \<and> readFileSync (ex_host ''t'' fs_bad_pr) 1 ''/w/pr.json'' = Inr ''{''
   \<and> JSON_parse (ex_host ''t'' fs_bad_pr) ''{'' = Inl ''SyntaxError''
   \<and> (\<forall>bts cs. program (ex_host ''t'' fs_bad_pr) bts [] cs = Inl (Host ''SyntaxError''))"
proof -
  let ?late = "ex_host ''t'' fs_late" and ?bad = "ex_host ''t'' fs_bad_pr"
  let ?badbase = "ex_host ''t'' fs_bad_base" and ?nopr = "ex_host ''t'' fs_no_pr"
  let ?cli = "[''node'', ''x.ts'', ''/w/base.json'', ''/w/pr.json'']"
  have a: "readFileSync ?late 0 ''/w/base.json'' = Inl ''ENOENT''"
    and b: "readFileSync ?late 1 ''/w/base.json'' = Inr ''B''"
    by (simp_all add: ex_host_def fs_late_def fs_ok_def)
  have c: "read_metafile ?bad 0 ''/w/base.json'' = Inr ex_base"
    and d: "readFileSync ?bad 1 ''/w/pr.json'' = Inr ''{''"
    and e: "JSON_parse ?bad ''{'' = Inl ''SyntaxError''"
    by (simp_all add: ex_host_def fs_bad_pr_def read_metafile_def)
  have f: "readFileSync ?badbase 0 ''/w/base.json'' = Inr ''{''"
    and g: "JSON_parse ?badbase ''{'' = Inl ''SyntaxError''"
    by (simp_all add: ex_host_def fs_bad_base_def)
  have i: "read_metafile ?nopr 0 ''/w/base.json'' = Inr ex_base"
    and j: "readFileSync ?nopr 1 ''/w/pr.json'' = Inl ''ENOENT''"
    by (simp_all add: ex_host_def fs_no_pr_def read_metafile_def)
  have p1: "program ?late bts [] cs = Inl (Host ''ENOENT'')" for bts cs
    using manifest_failure_propagates [of "[]" ?late "''ENOENT''" bts cs] a
    by (simp add: ex_host_def Let_def)
  have p2: "program ?late bts ?cli cs = Inl (Host ''ENOENT'')" for bts cs
    using manifest_failure_propagates [of ?cli ?late "''ENOENT''" bts cs] a
    by (simp add: Let_def)
  have p3: "program ?badbase bts [] cs = Inl (Host ''SyntaxError'')" for bts cs
    using manifest_failure_propagates [of "[]" ?badbase "''SyntaxError''" bts cs "''{''"] f g
    by (simp add: ex_host_def Let_def)
  have p4: "program ?nopr bts [] cs = Inl (Host ''ENOENT'')" for bts cs
    using manifest_failure_propagates [of "[]" ?nopr "''ENOENT''" bts cs _ ex_base] i j
    by (simp add: ex_host_def Let_def)
  have p5: "program ?bad bts [] cs = Inl (Host ''SyntaxError'')" for bts cs
    using manifest_failure_propagates [of "[]" ?bad "''SyntaxError''" bts cs "''{''" ex_base]
      c d e
    by (simp add: ex_host_def Let_def)
  show ?thesis using a b c d e f g i j p1 p2 p3 p4 p5 by simp
qed

section \<open>The token\<close>




section \<open>The marker of the comment\<close>

text \<open>
  Claim C2 on the code: \<open>findComment\<close> looks for a comment whose body starts with the
  marker, but the body that \<open>run\<close> posts starts with a line break and the heading,
  never with the marker. No comment of \<open>run\<close> is found again: on a pull request
  without comments the first \<open>run\<close> creates a comment, and the second creates another
  one beside it.
\<close>

theorem every_run_creates_a_comment:
  "\<not> startsWith (run_message t) comment_identifier
   \<and> run (ex_host ''t'' fs_ok) bts []
     = Inr [(1, Some (run_message (diff bts ex_base ex_pr)))]
   \<and> run (ex_host ''t'' fs_ok) bts [(1, Some (run_message (diff bts ex_base ex_pr)))]
     = Inr [(1, Some (run_message (diff bts ex_base ex_pr))),
            (2, Some (run_message (diff bts ex_base ex_pr)))]"
proof (intro conjI)
  show u: "\<not> startsWith (run_message t) comment_identifier" for t
    by (rule run_message_unmarked)
  show "run (ex_host ''t'' fs_ok) bts [] = Inr [(1, Some (run_message (diff bts ex_base ex_pr)))]"
    by (simp add: ex_host_def fs_ok_def run_defs createComment_def)
  show "run (ex_host ''t'' fs_ok) bts [(1, Some (run_message (diff bts ex_base ex_pr)))]
     = Inr [(1, Some (run_message (diff bts ex_base ex_pr))),
            (2, Some (run_message (diff bts ex_base ex_pr)))]"
    by (simp add: ex_host_def fs_ok_def run_defs createComment_def marked_def u)
qed

section \<open>What comment keeps\<close>

lemma marked_update:
  "distinct (map fst cs) \<Longrightarrow> c \<in> set cs \<Longrightarrow> marked c \<Longrightarrow>
   length (filter marked (updateComment (fst c) message cs))
   = length (filter marked cs) - 1 + (if marked (fst c, Some message) then 1 else 0)"
proof (induction cs)
  case Nil
  then show ?case by simp
next
  case (Cons d ds)
  show ?case
  proof (cases "d = c")
    case True
    then have "fst c \<notin> fst ` set ds" using Cons.prems(1) by auto
    then have "\<forall>x \<in> set ds. fst x \<noteq> fst c" by (metis imageI)
    then have "map (\<lambda>x. if fst x = fst c then (fst c, Some message) else x) ds = ds"
      by (intro map_idI) simp
    then show ?thesis using True Cons.prems(3) by (simp add: updateComment_def)
  next
    case False
    then have c: "c \<in> set ds" using Cons.prems(2) by auto
    then have ne: "fst d \<noteq> fst c" using Cons.prems(1) by (auto simp: image_iff)
    have "0 < length (filter marked ds)"
      using c Cons.prems(3) by (auto simp: filter_empty_conv)
    then show ?thesis
      using Cons.IH [OF _ c Cons.prems(3)] Cons.prems(1) ne
      by (auto simp: updateComment_def)
  qed
qed

text \<open>
  With a token, \<open>comment\<close> updates the first comment whose body starts with the marker,
  when there is one, and creates no comment then; else it creates one. When the ids
  of the comments are distinct and not zero, at most one comment with the marker
  before the call leaves at most one after it.
\<close>

theorem comment_keeps_one_marked:
  "getClient h = Inr client \<and> distinct (map fst cs) \<and> 0 \<notin> fst ` set cs
     \<and> length (filter marked cs) \<le> 1
   \<longrightarrow> (\<exists>cs'. comment h message cs = Inr cs'
          \<and> length (filter marked cs') \<le> 1
          \<and> (filter marked cs \<noteq> [] \<longrightarrow> map fst cs' = map fst cs)
          \<and> (filter marked cs = [] \<longrightarrow> cs' = createComment message cs))"
proof (intro impI)
  assume h: "getClient h = Inr client \<and> distinct (map fst cs) \<and> 0 \<notin> fst ` set cs
     \<and> length (filter marked cs) \<le> 1"
  show "\<exists>cs'. comment h message cs = Inr cs'
          \<and> length (filter marked cs') \<le> 1
          \<and> (filter marked cs \<noteq> [] \<longrightarrow> map fst cs' = map fst cs)
          \<and> (filter marked cs = [] \<longrightarrow> cs' = createComment message cs)"
  proof (cases "find marked cs")
    case None
    then have none: "filter marked cs = []"
      by (auto simp: find_None_iff filter_empty_conv)
    have "comment h message cs = Inr (createComment message cs)"
      using h None by (simp add: comment_def findComment_def and_then_def)
    moreover have "length (filter marked (createComment message cs)) \<le> 1"
      using none by (simp add: createComment_def)
    ultimately show ?thesis using none by simp
  next
    case (Some c)
    then have c: "c \<in> set cs" "marked c"
      by (auto simp: find_Some_iff)
    then have nz: "fst c \<noteq> 0" using h by auto
    have some: "filter marked cs \<noteq> []" using c by (auto simp: filter_empty_conv)
    have "comment h message cs = Inr (updateComment (fst c) message cs)"
      using h Some nz by (simp add: comment_def findComment_def and_then_def)
    moreover have "length (filter marked (updateComment (fst c) message cs)) \<le> 1"
      using marked_update [OF _ c, of message] h by auto
    moreover have "map fst (updateComment (fst c) message cs) = map fst cs"
      by (induction cs) (auto simp: updateComment_def)
    ultimately show ?thesis using some by simp
  qed
qed

theorem comment_keeps_one_marked_witness:
  "getClient (ex_host ''t'' fs_ok) = Inr ''t'' \<and> distinct (map fst ex_comments)
   \<and> 0 \<notin> fst ` set ex_comments \<and> length (filter marked ex_comments) \<le> 1
   \<and> (\<forall>t. comment (ex_host ''t'' fs_ok) (run_message t) ex_comments
          = Inr [(7, Some ''LGTM''), (9, Some (run_message t))])
   \<and> (\<forall>t. length (filter marked [(7, Some ''LGTM''), (9, Some (run_message t))]) = 0)"
proof -
  let ?h = "ex_host ''t'' fs_ok"
  have a: "getClient ?h = Inr ''t''" by (simp add: getClient_def ex_host_def)
  have b: "distinct (map fst ex_comments) \<and> 0 \<notin> fst ` set ex_comments"
    by (simp add: ex_comments_def)
  have m: "filter marked ex_comments = [(9, Some (comment_identifier @ ''old table''))]"
    by (simp add: ex_comments_def marked_def startsWith_def) (simp add: comment_identifier_def)
  have c: "length (filter marked ex_comments) \<le> 1" by (simp add: m)
  have d: "comment ?h (run_message t) ex_comments = Inr [(7, Some ''LGTM''), (9, Some (run_message t))]"
    for t
  proof -
    from comment_keeps_one_marked [of ?h "''t''" ex_comments "run_message t"] a b c
    obtain cs' where "comment ?h (run_message t) ex_comments = Inr cs'" by blast
    moreover have "find marked ex_comments = Some (9, Some (comment_identifier @ ''old table''))"
      by (simp add: ex_comments_def marked_def startsWith_def) (simp add: comment_identifier_def)
    ultimately show ?thesis
      using a by (simp add: comment_def findComment_def and_then_def updateComment_def
          ex_comments_def)
  qed
  have e: "length (filter marked [(7, Some ''LGTM''), (9, Some (run_message t))]) = 0" for t
    using run_message_unmarked [of t]
    by (simp add: marked_def startsWith_def) (simp add: comment_identifier_def)
  show ?thesis using a b c d e by simp
qed

section \<open>Pipes and lines\<close>




































end
